theory Spec2Isabelle
  imports Main "HOL-Library.Sublist"
begin

section \<open>The model group registry: \<^verbatim>\<open>e2e_test_framework/models/model_groups.py\<close>\<close>

text \<open>
  The module imports \<^verbatim>\<open>tflite_models\<close> and \<^verbatim>\<open>tf_models\<close> and reads twelve attributes
  of them. The two modules are not part of the sources at hand, so each is a parameter:
  a record with one field for every attribute that \<^verbatim>\<open>model_groups.py\<close> reads. The type
  \<open>'m\<close> of a model descriptor is left open; nothing is assumed about which descriptors
  are equal.
\<close>

record 'm tflite_models =
  DEEPLABV3_FP32 :: 'm
  MOBILESSD_FP32 :: 'm
  POSENET_FP32 :: 'm
  MOBILEBERT_FP32 :: 'm
  MOBILEBERT_INT8 :: 'm
  MOBILEBERT_FP16 :: 'm
  MOBILENET_V1 :: 'm
  MOBILENET_V2 :: 'm
  MOBILENET_V3SMALL :: 'm
  PERSON_DETECT_INT8 :: 'm
  EFFICIENTNET_INT8 :: 'm

record 'm tf_models =
  MINILM_L12_H384_UNCASED_INT32_SEQLEN128 :: 'm

text \<open>Small models that require less computational resources.\<close>

definition SMALL :: "'m tflite_models \<Rightarrow> 'm list" where
  "SMALL tflite =
     [DEEPLABV3_FP32 tflite,
      MOBILESSD_FP32 tflite,
      POSENET_FP32 tflite,
      MOBILEBERT_FP32 tflite,
      MOBILEBERT_INT8 tflite,
      MOBILEBERT_FP16 tflite,
      MOBILENET_V1 tflite,
      MOBILENET_V2 tflite,
      MOBILENET_V3SMALL tflite,
      PERSON_DETECT_INT8 tflite,
      EFFICIENTNET_INT8 tflite]"

text \<open>Large models that require more computational resources.\<close>

definition LARGE :: "'m tf_models \<Rightarrow> 'm list" where
  "LARGE tf = [MINILM_L12_H384_UNCASED_INT32_SEQLEN128 tf]"

text \<open>
  \<^verbatim>\<open>ALL = SMALL + LARGE\<close>. The name \<open>ALL\<close> is taken by the ASCII notation of the
  universal quantifier, hence the suffix.
\<close>

definition ALL_models :: "'m tflite_models \<Rightarrow> 'm tf_models \<Rightarrow> 'm list" where
  "ALL_models tflite tf = SMALL tflite @ LARGE tf"


section \<open>The package builder: \<^verbatim>\<open>iree_tflite/setup.py\<close>\<close>

subsection \<open>Python values and errors\<close>

text \<open>
  The values \<^verbatim>\<open>json.load\<close> can return. A float is kept as its \<^verbatim>\<open>repr\<close>, which
  identifies it; a dict as a map from its keys.
\<close>

datatype pyval =
    PNone
  | PBool bool
  | PInt int
  | PFloat string
  | PStr string
  | PList "pyval list"
  | PDict "string \<Rightarrow> pyval option"

text \<open>Truth value testing, as \<^verbatim>\<open>or\<close> applies it to its left operand.\<close>

fun truthy :: "pyval \<Rightarrow> bool" where
  "truthy PNone = False"
| "truthy (PBool b) = b"
| "truthy (PInt i) = (i \<noteq> 0)"
| "truthy (PFloat r) = (r \<noteq> ''0.0'' \<and> r \<noteq> ''-0.0'')"
| "truthy (PStr s) = (s \<noteq> [])"
| "truthy (PList xs) = (xs \<noteq> [])"
| "truthy (PDict d) = (d \<noteq> Map.empty)"

definition py_or :: "pyval \<Rightarrow> pyval \<Rightarrow> pyval" where
  "py_or a b = (if truthy a then a else b)"

text \<open>
  The exceptions that can leave the script. \<open>RuntimeError\<close> is the one the script raises
  itself (line 26). \<open>FileNotFoundError\<close>, \<open>PermissionError\<close> and \<open>IsADirectoryError\<close>
  come from \<^verbatim>\<open>open\<close>. \<^verbatim>\<open>json.load\<close> raises \<open>UnicodeDecodeError\<close> when the bytes of the
  file are not text in the encoding of the file object, \<open>JSONDecodeError\<close> when the text
  is not JSON, and \<open>RecursionError\<close> when the document is nested too deeply.
  \<open>AttributeError\<close> comes from calling \<^verbatim>\<open>.get\<close> on a value that has no such method, and
  \<open>SetupError\<close> stands for whatever \<^verbatim>\<open>setup()\<close> raises.
\<close>

datatype error =
    RuntimeError string
  | FileNotFoundError string
  | PermissionError string
  | IsADirectoryError string
  | UnicodeDecodeError
  | JSONDecodeError
  | RecursionError
  | AttributeError string
  | SetupError string

text \<open>
  \<^verbatim>\<open>version_info.get(key)\<close>: the value under the key, \<^verbatim>\<open>None\<close> when the key is missing;
  only a dict has the method.
\<close>

definition dict_get :: "pyval \<Rightarrow> string \<Rightarrow> error + pyval" where
  "dict_get v k =
     (case v of
        PDict d \<Rightarrow> Inr (case d k of None \<Rightarrow> PNone | Some x \<Rightarrow> x)
      | _ \<Rightarrow> Inl (AttributeError ''get''))"

subsection \<open>The command classes (lines 52 to 80)\<close>

text \<open>
  The script defines two classes, \<^verbatim>\<open>bdist_wheel\<close> and \<^verbatim>\<open>platlib_install\<close>, each
  overriding methods of a base class of the packaging tool. A command object is a record
  of the attributes the overrides touch (the rest of the object is the record's
  extension); the base class's method is a parameter, and may raise.
\<close>

datatype command_class = bdist_wheel | platlib_install

record wheel_command =
  root_is_pure :: bool

record install_command =
  install_lib :: string
  install_platlib :: string


definition bdist_wheel_get_tag ::
  "('a wheel_command_scheme \<Rightarrow> error + string \<times> string \<times> string)
    \<Rightarrow> 'a wheel_command_scheme \<Rightarrow> error + string \<times> string \<times> string" where
  "bdist_wheel_get_tag base_get_tag self =
     (case base_get_tag self of
        Inl e \<Rightarrow> Inl e
      | Inr (python, abi, plat) \<Rightarrow> Inr (''py3'', ''none'', plat))"


subsection \<open>The call of \<^verbatim>\<open>setup\<close> and the world the script runs in\<close>

text \<open>The keyword arguments of the call of \<^verbatim>\<open>setup\<close> (lines 83 to 116).\<close>

record setup_args =
  name :: string
  version :: string
  author :: string
  author_email :: string
  license :: string
  description :: string
  long_description :: string
  long_description_content_type :: string
  url :: string
  classifiers :: "string list"
  python_requires :: string
  packages :: "string list"
  package_data :: "(string \<times> string list) list"
  cmdclass :: "(string \<times> command_class option) list"
  entry_points :: "(string \<times> string list) list"
  zip_safe :: bool

text \<open>
  Why \<^verbatim>\<open>open(path, "rt")\<close> fails on a path that exists, and the exception it raises then.
\<close>

datatype open_failure = Permission_denied | Is_a_directory

fun open_exception :: "open_failure \<Rightarrow> string \<Rightarrow> error" where
  "open_exception Permission_denied path = PermissionError path"
| "open_exception Is_a_directory path = IsADirectoryError path"

text \<open>
  Why \<^verbatim>\<open>json.load\<close> fails on the bytes of a file, and the exception it raises then.
\<close>

datatype json_failure = Undecodable_bytes | Not_json | Too_deep

fun json_exception :: "json_failure \<Rightarrow> error" where
  "json_exception Undecodable_bytes = UnicodeDecodeError"
| "json_exception Not_json = JSONDecodeError"
| "json_exception Too_deep = RecursionError"

text \<open>
  What is at a path: whether it may be executed, whether \<^verbatim>\<open>open(path, "rt")\<close> succeeds
  (and why not, when it does not), and the bytes that are read from it.
\<close>

record fnode =
  x_ok :: bool
  r_ok :: bool
  open_failure :: open_failure
  text_of :: string

text \<open>
  Everything the script asks of its surroundings: the operating system's name, the
  directory of the script, the file system, and the library functions it calls
  (\<^verbatim>\<open>os.path.join\<close>, \<^verbatim>\<open>os.path.realpath\<close>, \<^verbatim>\<open>json.load\<close>, \<^verbatim>\<open>str\<close> on a value that
  is not a string, whether \<^verbatim>\<open>wheel.bdist_wheel\<close> can be imported,
  \<^verbatim>\<open>find_namespace_packages\<close>, and \<^verbatim>\<open>setup\<close> itself, which returns or raises).
  \<^verbatim>\<open>json.load\<close> is two fields: \<open>json_loads\<close> gives the value it returns for the bytes of
  a file, \<open>None\<close> when it raises, and \<open>json_failure\<close> says why it raises then.
\<close>

record world =
  system :: string
  this_dir :: string
  path_join :: "string \<Rightarrow> string list \<Rightarrow> string"
  realpath :: "string \<Rightarrow> string"
  files :: "string \<Rightarrow> fnode option"
  json_loads :: "string \<Rightarrow> pyval option"
  json_failure :: "string \<Rightarrow> json_failure"
  str_of :: "pyval \<Rightarrow> string"
  wheel_importable :: bool
  find_namespace_packages :: "string list \<Rightarrow> string list"
  run_setup :: "setup_args \<Rightarrow> error option"

text \<open>
  What the script does to its surroundings, in program order: every call that reads the
  platform, touches the file system, prints, reads the version record or reaches the
  packaging tool.
\<close>

datatype event =
    Platform_system
  | Os_access string
  | Os_realpath string
  | Open_rt string
  | Json_load
  | Print string
  | Get string
  | Import_wheel
  | Find_namespace_packages "string list"
  | Setup setup_args

text \<open>
  A piece of the script yields the events it caused and either the exception that ended
  it or its value. \<open>then_do\<close> runs the next piece only after a piece that returned.
\<close>

type_synonym 'a step = "event list \<times> (error + 'a)"

definition then_do :: "'a step \<Rightarrow> ('a \<Rightarrow> 'b step) \<Rightarrow> 'b step" where
  "then_do m f =
     (case m of
        (l, Inl e) \<Rightarrow> (l, Inl e)
      | (l, Inr x) \<Rightarrow> (case f x of (l', r) \<Rightarrow> (l @ l', r)))"


subsection \<open>The script, top to bottom\<close>

text \<open>
  The script is a sequence of top-level statements. The imports of lines 12 to 16 are
  taken to succeed; the import of line 53 is guarded by the script itself and is part of
  the model.
\<close>

text \<open>\<^verbatim>\<open>os.access(path, os.X_OK)\<close>: false for a missing file, else its execute permission.\<close>

definition os_access_X_OK :: "world \<Rightarrow> string \<Rightarrow> bool" where
  "os_access_X_OK w path = (case files w path of None \<Rightarrow> False | Some n \<Rightarrow> x_ok n)"

text \<open>Line 22, given what \<^verbatim>\<open>platform.system()\<close> returned.\<close>

definition exe_suffix :: "string \<Rightarrow> string" where
  "exe_suffix platform_system = (if platform_system = ''Windows'' then ''.exe'' else '''')"

text \<open>Lines 23 and 24, given the value of \<^verbatim>\<open>exe_suffix\<close>.\<close>

definition import_tflite_path :: "world \<Rightarrow> string \<Rightarrow> string" where
  "import_tflite_path w sfx =
     path_join w (this_dir w) [''iree'', ''tools'', ''tflite'', ''iree-import-tflite'' @ sfx]"

text \<open>
  Lines 22 to 28: the suffix is computed from one call of \<^verbatim>\<open>platform.system()\<close>, the
  path is joined, and the script raises unless the path can be executed. The piece
  returns \<^verbatim>\<open>exe_suffix\<close>, which line 104 reads again.
\<close>

definition resolve_executable :: "world \<Rightarrow> string step" where
  "resolve_executable w =
     (let sfx = exe_suffix (system w);
          path = import_tflite_path w sfx
      in ([Platform_system, Os_access path],
          if \<not> os_access_X_OK w path then
            Inl (RuntimeError (''Tool not found ('' @ path @ ''). Be sure to build ''
                  @ ''//iree_tf_compiler:iree-import-tflite and run ./symlink_binaries.sh''))
          else Inr sfx))"

text \<open>Lines 31 to 33.\<close>

definition THIS_DIR :: "world \<Rightarrow> string" where
  "THIS_DIR w = realpath w (this_dir w)"

definition IREESRC_DIR :: "world \<Rightarrow> string" where
  "IREESRC_DIR w = path_join w (THIS_DIR w) [''..'', ''..'', ''..'', ''..'']"

definition VERSION_INFO_FILE :: "world \<Rightarrow> string" where
  "VERSION_INFO_FILE w = path_join w (IREESRC_DIR w) [''version_info.json'']"

text \<open>
  Lines 36 to 38: \<^verbatim>\<open>open\<close> raises for a missing file, for one it may not read and for a
  directory; \<^verbatim>\<open>json.load\<close> raises for bytes that are not text, for a text that is not
  JSON and for a document nested too deeply.
\<close>

definition load_version_info :: "world \<Rightarrow> pyval step" where
  "load_version_info w =
     (case files w (VERSION_INFO_FILE w) of
        None \<Rightarrow>
          ([Open_rt (VERSION_INFO_FILE w)], Inl (FileNotFoundError (VERSION_INFO_FILE w)))
      | Some f \<Rightarrow>
          if \<not> r_ok f then
            ([Open_rt (VERSION_INFO_FILE w)],
             Inl (open_exception (open_failure f) (VERSION_INFO_FILE w)))
          else
            (case json_loads w (text_of f) of
               None \<Rightarrow>
                 ([Open_rt (VERSION_INFO_FILE w), Json_load],
                  Inl (json_exception (json_failure w (text_of f))))
             | Some v \<Rightarrow> ([Open_rt (VERSION_INFO_FILE w), Json_load], Inr v)))"

text \<open>
  Lines 31 to 45: the \<^verbatim>\<open>try\<close> statement catches \<^verbatim>\<open>FileNotFoundError\<close> and nothing else;
  its handler prints and binds \<^verbatim>\<open>version_info\<close> to the empty dict.
\<close>

definition load_version :: "world \<Rightarrow> pyval step" where
  "load_version w =
     (case load_version_info w of
        (l, Inl e) \<Rightarrow>
          (case e of
             FileNotFoundError _ \<Rightarrow>
               (Os_realpath (this_dir w) # l
                  @ [Print ''version_info.json not found. Using defaults''],
                Inr (PDict Map.empty))
           | _ \<Rightarrow> (Os_realpath (this_dir w) # l, Inl e))
      | (l, Inr v) \<Rightarrow> (Os_realpath (this_dir w) # l, Inr v))"

text \<open>Lines 47 and 48: \<^verbatim>\<open>PACKAGE_SUFFIX\<close> and \<^verbatim>\<open>PACKAGE_VERSION\<close>.\<close>

definition package_identity :: "pyval \<Rightarrow> (pyval \<times> pyval) step" where
  "package_identity version_info =
     then_do ([Get ''package-suffix''], dict_get version_info ''package-suffix'')
       (\<lambda>suffix.
     then_do ([Get ''package-version''], dict_get version_info ''package-version'')
       (\<lambda>vers.
     ([], Inr (py_or suffix (PStr ''''), py_or vers (PStr ''0.1dev1'')))))"

text \<open>
  A replacement field of an f-string, \<^verbatim>\<open>f"{v}"\<close>: a string stands for itself, any other
  value for its \<^verbatim>\<open>str\<close>.
\<close>

definition format_value :: "world \<Rightarrow> pyval \<Rightarrow> string" where
  "format_value w v = (case v of PStr s \<Rightarrow> s | _ \<Rightarrow> str_of w v)"

text \<open>Lines 18 to 20: a raw string that starts and ends with a line feed.\<close>

definition README :: string where
  "README = CHR 0x0A # ''TensorFlow TFLite Compiler Tools'' @ [CHR 0x0A]"

text \<open>
  Lines 83 to 116, given \<^verbatim>\<open>exe_suffix\<close>, \<^verbatim>\<open>bdist_wheel\<close> (the class, or \<^verbatim>\<open>None\<close>),
  \<^verbatim>\<open>PACKAGE_SUFFIX\<close> and \<^verbatim>\<open>PACKAGE_VERSION\<close>.
\<close>

definition setup_kwargs ::
  "world \<Rightarrow> string \<Rightarrow> command_class option \<Rightarrow> pyval \<Rightarrow> pyval \<Rightarrow> setup_args" where
  "setup_kwargs w sfx bdist_wheel_cls PACKAGE_SUFFIX PACKAGE_VERSION =
     \<lparr> name = ''iree-tools-tflite'' @ format_value w PACKAGE_SUFFIX,
       version = format_value w PACKAGE_VERSION,
       author = ''The IREE Team'',
       author_email = ''iree-discuss@googlegroups.com'',
       license = ''Apache-2.0'',
       description = ''IREE TFLite Compiler Tools'',
       long_description = README,
       long_description_content_type = ''text/markdown'',
       url = ''https://github.com/iree-org/iree'',
       classifiers =
         [''Development Status :: 3 - Alpha'',
          ''License :: OSI Approved :: Apache Software License'',
          ''Programming Language :: Python :: 3''],
       python_requires = ''>=3.7'',
       packages =
         find_namespace_packages w [''iree.tools.tflite'', ''iree.tools.tflite.*''],
       package_data = [(''iree.tools.tflite'', [''iree-import-tflite'' @ sfx])],
       cmdclass = [(''bdist_wheel'', bdist_wheel_cls), (''install'', Some platlib_install)],
       entry_points =
         [(''console_scripts'',
           [''iree-import-tflite = iree.tools.tflite.scripts.iree_import_tflite.__main__:main''])],
       zip_safe = False \<rparr>"

text \<open>
  Lines 52 to 116: the import of \<^verbatim>\<open>wheel.bdist_wheel\<close> binds \<^verbatim>\<open>bdist_wheel\<close> to the
  subclass, or to \<^verbatim>\<open>None\<close> on \<^verbatim>\<open>ImportError\<close>; then \<^verbatim>\<open>setup\<close> is called. The piece
  returns the keyword arguments it passed when \<^verbatim>\<open>setup\<close> returned.
\<close>

definition emit :: "world \<Rightarrow> string \<Rightarrow> pyval \<times> pyval \<Rightarrow> setup_args step" where
  "emit w sfx ident =
     (let bdist_wheel_cls = (if wheel_importable w then Some bdist_wheel else None);
          args = setup_kwargs w sfx bdist_wheel_cls (fst ident) (snd ident)
      in ([Import_wheel,
           Find_namespace_packages [''iree.tools.tflite'', ''iree.tools.tflite.*''],
           Setup args],
          case run_setup w args of Some e \<Rightarrow> Inl e | None \<Rightarrow> Inr args))"

text \<open>The whole script.\<close>

definition setup_py :: "world \<Rightarrow> setup_args step" where
  "setup_py w =
     then_do (resolve_executable w) (\<lambda>sfx.
     then_do (load_version w) (\<lambda>version_info.
     then_do (package_identity version_info) (\<lambda>ident.
     emit w sfx ident)))"

subsection \<open>Stages\<close>

text \<open>
  The four stages of the builder, and the stage each event belongs to: lines 22 to 28
  resolve the executable, lines 31 to 45 load the version record, lines 47 and 48 compute
  the identity, lines 52 to 116 emit.
\<close>

datatype stage = Resolve | Load_version | Compute_identity | Emit

fun stage_of :: "event \<Rightarrow> stage" where
  "stage_of Platform_system = Resolve"
| "stage_of (Os_access _) = Resolve"
| "stage_of (Os_realpath _) = Load_version"
| "stage_of (Open_rt _) = Load_version"
| "stage_of Json_load = Load_version"
| "stage_of (Print _) = Load_version"
| "stage_of (Get _) = Compute_identity"
| "stage_of Import_wheel = Emit"
| "stage_of (Find_namespace_packages _) = Emit"
| "stage_of (Setup _) = Emit"

text \<open>The stages a run went through, each named once, in the order it entered them.\<close>

definition stages :: "world \<Rightarrow> stage list" where
  "stages w = remdups_adj (map stage_of (fst (setup_py w)))"

text \<open>Whether \<^verbatim>\<open>setup\<close> was called at all.\<close>

fun is_Setup :: "event \<Rightarrow> bool" where
  "is_Setup (Setup _) = True"
| "is_Setup _ = False"


text \<open>The keyword arguments of every call of \<^verbatim>\<open>setup\<close> in a run, in order.\<close>

definition setup_calls :: "world \<Rightarrow> setup_args list" where
  "setup_calls w = concat (map (\<lambda>e. case e of Setup a \<Rightarrow> [a] | _ \<Rightarrow> []) (fst (setup_py w)))"

subsection \<open>Concrete worlds\<close>

text \<open>
  \<^verbatim>\<open>posixpath.join\<close>: a component that starts with a slash replaces what came before;
  otherwise it is appended, after a slash unless the path is empty or ends with one.
\<close>

definition posix_join :: "string \<Rightarrow> string list \<Rightarrow> string" where
  "posix_join a p =
     foldl (\<lambda>path b.
              if b \<noteq> [] \<and> hd b = CHR ''/'' then b
              else if path = [] \<or> last path = CHR ''/'' then path @ b
              else path @ ''/'' @ b)
       a p"

text \<open>
  A JSON reader that knows five documents: the record of the specification's example,
  a record with a null suffix and an empty version, a record whose suffix is
  \<^verbatim>\<open>false\<close> and whose version is the number \<^verbatim>\<open>0\<close>, the empty record and the empty
  array. It raises on everything else: \<open>UnicodeDecodeError\<close> on the single byte
  \<^verbatim>\<open>0xFF\<close>, \<open>JSONDecodeError\<close> otherwise.
\<close>

definition nightly_text :: string where
  \<open>nightly_text = ''{"package-suffix": "-nightly", "package-version": "1.2.3"}''\<close>

definition falsy_text :: string where
  \<open>falsy_text = ''{"package-suffix": null, "package-version": ""}''\<close>

definition mistyped_text :: string where
  \<open>mistyped_text = ''{"package-suffix": false, "package-version": 0}''\<close>

definition example_json_loads :: "string \<Rightarrow> pyval option" where
  "example_json_loads s =
     (if s = nightly_text then
        Some (PDict [''package-suffix'' \<mapsto> PStr ''-nightly'',
                     ''package-version'' \<mapsto> PStr ''1.2.3''])
      else if s = falsy_text then
        Some (PDict [''package-suffix'' \<mapsto> PNone, ''package-version'' \<mapsto> PStr ''''])
      else if s = mistyped_text then
        Some (PDict [''package-suffix'' \<mapsto> PBool False, ''package-version'' \<mapsto> PInt 0])
      else if s = ''{}'' then Some (PDict Map.empty)
      else if s = ''[]'' then Some (PList [])
      else None)"

definition example_json_failure :: "string \<Rightarrow> json_failure" where
  "example_json_failure s = (if s = [CHR 0xFF] then Undecodable_bytes else Not_json)"

text \<open>
  A world with the script in \<^verbatim>\<open>/src/pkg\<close>: the operating system's name, the file at the
  tool's path (found under the name with and without \<^verbatim>\<open>.exe\<close>) and the file at the
  version record's path are given; there is no other file, \<^verbatim>\<open>wheel\<close> can be
  imported and \<^verbatim>\<open>setup\<close> returns.
\<close>

definition example_world :: "string \<Rightarrow> fnode option \<Rightarrow> fnode option \<Rightarrow> world" where
  "example_world sys tool vfile =
     \<lparr> system = sys,
       this_dir = ''/src/pkg'',
       path_join = posix_join,
       realpath = (\<lambda>p. p),
       files = (\<lambda>p. if p = ''/src/pkg/iree/tools/tflite/iree-import-tflite'' then tool
                     else if p = ''/src/pkg/iree/tools/tflite/iree-import-tflite.exe'' then tool
                     else if p = ''/src/pkg/../../../../version_info.json'' then vfile
                     else None),
       json_loads = example_json_loads,
       json_failure = example_json_failure,
       str_of = (\<lambda>v. ''?''),
       wheel_importable = True,
       find_namespace_packages = (\<lambda>incl. [''iree.tools.tflite'']),
       run_setup = (\<lambda>args. None) \<rparr>"

text \<open>A file that can be read, with its execute permission and its bytes.\<close>

definition a_file :: "bool \<Rightarrow> string \<Rightarrow> fnode" where
  "a_file x s = \<lparr> x_ok = x, r_ok = True, open_failure = Permission_denied, text_of = s \<rparr>"



section \<open>Theorems about the model group registry\<close>

text \<open>
  Claim C2. \<open>ALL\<close> is the concatenation of the declared groups, \<open>SMALL\<close> first and
  \<open>LARGE\<close> second: the eleven entries of \<open>SMALL\<close> in their order, then the entry of
  \<open>LARGE\<close>. It has as many entries as the two groups together, whatever descriptors
  happen to be equal, so nothing is dropped, added, merged or moved.
\<close>

theorem ALL_is_ordered_concatenation:
  "ALL_models tflite tf = concat [SMALL tflite, LARGE tf]
   \<and> ALL_models tflite tf =
       [DEEPLABV3_FP32 tflite, MOBILESSD_FP32 tflite, POSENET_FP32 tflite,
        MOBILEBERT_FP32 tflite, MOBILEBERT_INT8 tflite, MOBILEBERT_FP16 tflite,
        MOBILENET_V1 tflite, MOBILENET_V2 tflite, MOBILENET_V3SMALL tflite,
        PERSON_DETECT_INT8 tflite, EFFICIENTNET_INT8 tflite,
        MINILM_L12_H384_UNCASED_INT32_SEQLEN128 tf]
   \<and> length (ALL_models tflite tf) = length (SMALL tflite) + length (LARGE tf)
   \<and> length (ALL_models tflite tf) = 12
   \<and> take (length (SMALL tflite)) (ALL_models tflite tf) = SMALL tflite
   \<and> drop (length (SMALL tflite)) (ALL_models tflite tf) = LARGE tf"
  by (simp add: ALL_models_def SMALL_def LARGE_def)


section \<open>Theorems about the package builder\<close>

subsection \<open>The pieces of the script and the shapes of a run\<close>

lemma then_do_Inl: "then_do (l, Inl e) f = (l, Inl e)"
  by (simp add: then_do_def)

lemma then_do_Inr: "then_do (l, Inr x) f = (l @ fst (f x), snd (f x))"
  by (simp add: then_do_def split: prod.splits)

lemma resolve_executable_fails:
  "\<not> os_access_X_OK w (import_tflite_path w (exe_suffix (system w))) \<Longrightarrow>
   resolve_executable w =
     ([Platform_system, Os_access (import_tflite_path w (exe_suffix (system w)))],
      Inl (RuntimeError (''Tool not found ('' @ import_tflite_path w (exe_suffix (system w))
        @ ''). Be sure to build //iree_tf_compiler:iree-import-tflite and run ./symlink_binaries.sh'')))"
  by (simp add: resolve_executable_def Let_def)

lemma resolve_executable_returns:
  "os_access_X_OK w (import_tflite_path w (exe_suffix (system w))) \<Longrightarrow>
   resolve_executable w =
     ([Platform_system, Os_access (import_tflite_path w (exe_suffix (system w)))],
      Inr (exe_suffix (system w)))"
  by (simp add: resolve_executable_def Let_def)

lemma setup_py_tool_missing:
  "\<not> os_access_X_OK w (import_tflite_path w (exe_suffix (system w))) \<Longrightarrow>
   setup_py w =
     ([Platform_system, Os_access (import_tflite_path w (exe_suffix (system w)))],
      Inl (RuntimeError (''Tool not found ('' @ import_tflite_path w (exe_suffix (system w))
        @ ''). Be sure to build //iree_tf_compiler:iree-import-tflite and run ./symlink_binaries.sh'')))"
  by (simp add: setup_py_def resolve_executable_fails then_do_Inl)

lemma load_version_absent:
  "files w (VERSION_INFO_FILE w) = None \<Longrightarrow>
   load_version w =
     ([Os_realpath (this_dir w), Open_rt (VERSION_INFO_FILE w),
       Print ''version_info.json not found. Using defaults''],
      Inr (PDict Map.empty))"
  by (simp add: load_version_def load_version_info_def)

lemma load_version_unreadable:
  "files w (VERSION_INFO_FILE w) = Some f \<Longrightarrow> \<not> r_ok f \<Longrightarrow>
   load_version w =
     ([Os_realpath (this_dir w), Open_rt (VERSION_INFO_FILE w)],
      Inl (open_exception (open_failure f) (VERSION_INFO_FILE w)))"
  by (cases "open_failure f") (simp_all add: load_version_def load_version_info_def)

lemma load_version_undecodable:
  "files w (VERSION_INFO_FILE w) = Some f \<Longrightarrow> r_ok f \<Longrightarrow> json_loads w (text_of f) = None \<Longrightarrow>
   load_version w =
     ([Os_realpath (this_dir w), Open_rt (VERSION_INFO_FILE w), Json_load],
      Inl (json_exception (json_failure w (text_of f))))"
  by (cases "json_failure w (text_of f)") (simp_all add: load_version_def load_version_info_def)

lemma load_version_loaded:
  "files w (VERSION_INFO_FILE w) = Some f \<Longrightarrow> r_ok f \<Longrightarrow> json_loads w (text_of f) = Some v \<Longrightarrow>
   load_version w =
     ([Os_realpath (this_dir w), Open_rt (VERSION_INFO_FILE w), Json_load], Inr v)"
  by (simp add: load_version_def load_version_info_def)

lemma package_identity_dict:
  "package_identity (PDict d) =
     ([Get ''package-suffix'', Get ''package-version''],
      Inr (py_or (case d ''package-suffix'' of None \<Rightarrow> PNone | Some x \<Rightarrow> x) (PStr ''''),
           py_or (case d ''package-version'' of None \<Rightarrow> PNone | Some x \<Rightarrow> x) (PStr ''0.1dev1'')))"
  by (simp add: package_identity_def dict_get_def then_do_Inr)

lemma package_identity_not_dict:
  "(\<And>d. v \<noteq> PDict d) \<Longrightarrow>
   package_identity v = ([Get ''package-suffix''], Inl (AttributeError ''get''))"
  by (cases v) (auto simp: package_identity_def dict_get_def then_do_Inl)

lemma emit_eq:
  "emit w sfx (a, b) =
     ([Import_wheel, Find_namespace_packages [''iree.tools.tflite'', ''iree.tools.tflite.*''],
       Setup (setup_kwargs w sfx (if wheel_importable w then Some bdist_wheel else None) a b)],
      case run_setup w (setup_kwargs w sfx (if wheel_importable w then Some bdist_wheel else None) a b)
      of Some e \<Rightarrow> Inl e
       | None \<Rightarrow> Inr (setup_kwargs w sfx (if wheel_importable w then Some bdist_wheel else None) a b))"
  by (simp add: emit_def Let_def)

lemma setup_py_load_fails:
  assumes "os_access_X_OK w (import_tflite_path w (exe_suffix (system w)))"
      and "load_version w = (l, Inl e)"
  shows "setup_py w =
           (Platform_system # Os_access (import_tflite_path w (exe_suffix (system w))) # l, Inl e)"
  by (simp add: setup_py_def resolve_executable_returns [OF assms(1)] assms(2)
        then_do_Inr then_do_Inl)

lemma setup_py_identity_fails:
  assumes "os_access_X_OK w (import_tflite_path w (exe_suffix (system w)))"
      and "load_version w = (l, Inr v)"
      and "\<And>d. v \<noteq> PDict d"
  shows "setup_py w =
           (Platform_system # Os_access (import_tflite_path w (exe_suffix (system w)))
              # l @ [Get ''package-suffix''],
            Inl (AttributeError ''get''))"
  by (simp add: setup_py_def resolve_executable_returns [OF assms(1)] assms(2)
        package_identity_not_dict [OF assms(3)] then_do_Inr then_do_Inl)

lemma setup_py_emits:
  assumes "os_access_X_OK w (import_tflite_path w (exe_suffix (system w)))"
      and "load_version w = (l, Inr (PDict d))"
      and "args = setup_kwargs w (exe_suffix (system w))
                    (if wheel_importable w then Some bdist_wheel else None)
                    (py_or (case d ''package-suffix'' of None \<Rightarrow> PNone | Some x \<Rightarrow> x) (PStr ''''))
                    (py_or (case d ''package-version'' of None \<Rightarrow> PNone | Some x \<Rightarrow> x)
                       (PStr ''0.1dev1''))"
  shows "setup_py w =
           (Platform_system # Os_access (import_tflite_path w (exe_suffix (system w)))
              # l @ [Get ''package-suffix'', Get ''package-version'', Import_wheel,
                     Find_namespace_packages [''iree.tools.tflite'', ''iree.tools.tflite.*''],
                     Setup args],
            case run_setup w args of Some e \<Rightarrow> Inl e | None \<Rightarrow> Inr args)"
  unfolding assms(3)
  by (simp add: setup_py_def resolve_executable_returns [OF assms(1)] assms(2)
        package_identity_dict emit_eq then_do_Inr)

lemma load_version_cases:
  obtains
    (absent) "files w (VERSION_INFO_FILE w) = None"
  | (unreadable) f where "files w (VERSION_INFO_FILE w) = Some f" "\<not> r_ok f"
  | (undecodable) f where "files w (VERSION_INFO_FILE w) = Some f" "r_ok f"
        "json_loads w (text_of f) = None"
  | (loaded) f v where "files w (VERSION_INFO_FILE w) = Some f" "r_ok f"
        "json_loads w (text_of f) = Some v"
proof (cases "files w (VERSION_INFO_FILE w)")
  case None
  then show ?thesis by (rule absent)
next
  case (Some f)
  show ?thesis
  proof (cases "r_ok f")
    case False
    with Some show ?thesis by (rule unreadable)
  next
    case True
    show ?thesis
    proof (cases "json_loads w (text_of f)")
      case None
      with Some True show ?thesis by (rule undecodable)
    next
      case (Some v)
      with \<open>files w (VERSION_INFO_FILE w) = Some f\<close> True show ?thesis by (rule loaded)
    qed
  qed
qed

lemma load_version_info_cases:
  obtains
    (absent) "load_version_info w =
        ([Open_rt (VERSION_INFO_FILE w)], Inl (FileNotFoundError (VERSION_INFO_FILE w)))"
      "load_version w =
        ([Os_realpath (this_dir w), Open_rt (VERSION_INFO_FILE w),
          Print ''version_info.json not found. Using defaults''], Inr (PDict Map.empty))"
  | (unreadable) k where "load_version_info w =
        ([Open_rt (VERSION_INFO_FILE w)], Inl (open_exception k (VERSION_INFO_FILE w)))"
      "load_version w =
        ([Os_realpath (this_dir w), Open_rt (VERSION_INFO_FILE w)],
         Inl (open_exception k (VERSION_INFO_FILE w)))"
  | (undecodable) j where "load_version_info w =
        ([Open_rt (VERSION_INFO_FILE w), Json_load], Inl (json_exception j))"
      "load_version w =
        ([Os_realpath (this_dir w), Open_rt (VERSION_INFO_FILE w), Json_load],
         Inl (json_exception j))"
  | (loaded) v where "load_version_info w =
        ([Open_rt (VERSION_INFO_FILE w), Json_load], Inr v)"
      "load_version w =
        ([Os_realpath (this_dir w), Open_rt (VERSION_INFO_FILE w), Json_load], Inr v)"
proof (cases w rule: load_version_cases)
  case absent
  then show ?thesis
    using that(1) by (simp add: load_version_absent load_version_info_def)
next
  case (unreadable f)
  then show ?thesis
    using that(2) [of "open_failure f"]
    by (simp add: load_version_unreadable load_version_info_def)
next
  case (undecodable f)
  then show ?thesis
    using that(3) [of "json_failure w (text_of f)"]
    by (simp add: load_version_undecodable load_version_info_def)
next
  case (loaded f v)
  then show ?thesis
    using that(4) [of v] by (simp add: load_version_loaded load_version_info_def)
qed

text \<open>Every run of the script is of one of four shapes.\<close>

lemma setup_py_runs:
  obtains
    (tool_missing)
      "\<not> os_access_X_OK w (import_tflite_path w (exe_suffix (system w)))"
      "setup_py w =
         ([Platform_system, Os_access (import_tflite_path w (exe_suffix (system w)))],
          Inl (RuntimeError (''Tool not found ('' @ import_tflite_path w (exe_suffix (system w))
            @ ''). Be sure to build //iree_tf_compiler:iree-import-tflite and run ./symlink_binaries.sh'')))"
  | (load_fails) l e where
      "os_access_X_OK w (import_tflite_path w (exe_suffix (system w)))"
      "load_version w = (Os_realpath (this_dir w) # Open_rt (VERSION_INFO_FILE w) # l, Inl e)"
      "l = [] \<or> l = [Json_load]"
      "setup_py w =
         (Platform_system # Os_access (import_tflite_path w (exe_suffix (system w)))
            # Os_realpath (this_dir w) # Open_rt (VERSION_INFO_FILE w) # l, Inl e)"
  | (identity_fails) v where
      "os_access_X_OK w (import_tflite_path w (exe_suffix (system w)))"
      "load_version w =
         ([Os_realpath (this_dir w), Open_rt (VERSION_INFO_FILE w), Json_load], Inr v)"
      "\<And>d. v \<noteq> PDict d"
      "setup_py w =
         ([Platform_system, Os_access (import_tflite_path w (exe_suffix (system w))),
           Os_realpath (this_dir w), Open_rt (VERSION_INFO_FILE w), Json_load,
           Get ''package-suffix''],
          Inl (AttributeError ''get''))"
  | (emits) l d args where
      "os_access_X_OK w (import_tflite_path w (exe_suffix (system w)))"
      "load_version w =
         (Os_realpath (this_dir w) # Open_rt (VERSION_INFO_FILE w) # l, Inr (PDict d))"
      "l = [Print ''version_info.json not found. Using defaults''] \<or> l = [Json_load]"
      "args = setup_kwargs w (exe_suffix (system w))
                (if wheel_importable w then Some bdist_wheel else None)
                (py_or (case d ''package-suffix'' of None \<Rightarrow> PNone | Some x \<Rightarrow> x) (PStr ''''))
                (py_or (case d ''package-version'' of None \<Rightarrow> PNone | Some x \<Rightarrow> x)
                   (PStr ''0.1dev1''))"
      "setup_py w =
         (Platform_system # Os_access (import_tflite_path w (exe_suffix (system w)))
            # Os_realpath (this_dir w) # Open_rt (VERSION_INFO_FILE w) # l
            @ [Get ''package-suffix'', Get ''package-version'', Import_wheel,
               Find_namespace_packages [''iree.tools.tflite'', ''iree.tools.tflite.*''],
               Setup args],
          case run_setup w args of Some e \<Rightarrow> Inl e | None \<Rightarrow> Inr args)"
proof (cases "os_access_X_OK w (import_tflite_path w (exe_suffix (system w)))")
  case False
  then show ?thesis
    using tool_missing setup_py_tool_missing by blast
next
  case tool: True
  show ?thesis
  proof (cases w rule: load_version_info_cases)
    case absent
    from setup_py_emits [OF tool absent(2) refl] show ?thesis
      using emits [OF tool absent(2) _ refl] by simp
  next
    case unreadable
    from setup_py_load_fails [OF tool unreadable(2)] show ?thesis
      using load_fails [OF tool unreadable(2)] by simp
  next
    case undecodable
    from setup_py_load_fails [OF tool undecodable(2)] show ?thesis
      using load_fails [OF tool undecodable(2)] by simp
  next
    case (loaded v)
    show ?thesis
    proof (cases "\<exists>d. v = PDict d")
      case True
      then obtain d where d: "v = PDict d" ..
      from setup_py_emits [OF tool loaded(2) [unfolded d] refl] show ?thesis
        using emits [OF tool loaded(2) [unfolded d] _ refl] by simp
    next
      case False
      then have nd: "\<And>d. v \<noteq> PDict d" by blast
      from setup_py_identity_fails [OF tool loaded(2) nd] show ?thesis
        using identity_fails [OF tool loaded(2) nd] by simp
    qed
  qed
qed

lemma setup_calls_of_run:
  "setup_py w = (l, r) \<Longrightarrow>
   setup_calls w = concat (map (\<lambda>e. case e of Setup a \<Rightarrow> [a] | _ \<Rightarrow> []) l)"
  by (simp add: setup_calls_def)

lemma stages_of_run:
  "setup_py w = (l, r) \<Longrightarrow> stages w = remdups_adj (map stage_of l)"
  by (simp add: stages_def)

lemma name_setup_kwargs:
  "name (setup_kwargs w sfx c a b) = ''iree-tools-tflite'' @ format_value w a"
  by (simp add: setup_kwargs_def)

lemma version_setup_kwargs:
  "version (setup_kwargs w sfx c a b) = format_value w b"
  by (simp add: setup_kwargs_def)

lemma setup_py_loaded_dict:
  assumes "os_access_X_OK w (import_tflite_path w (exe_suffix (system w)))"
      and "files w (VERSION_INFO_FILE w) = Some f"
      and "r_ok f"
      and "json_loads w (text_of f) = Some (PDict d)"
  shows "setup_calls w =
           [setup_kwargs w (exe_suffix (system w))
              (if wheel_importable w then Some bdist_wheel else None)
              (py_or (case d ''package-suffix'' of None \<Rightarrow> PNone | Some x \<Rightarrow> x) (PStr ''''))
              (py_or (case d ''package-version'' of None \<Rightarrow> PNone | Some x \<Rightarrow> x)
                 (PStr ''0.1dev1''))]"
proof -
  note lv = load_version_loaded [OF assms(2,3,4)]
  note run = setup_py_emits [OF assms(1) lv refl]
  show ?thesis
    by (simp add: setup_calls_of_run [OF run])
qed

lemma resolve_executable_Inl:
  "snd (resolve_executable w) = Inl e \<Longrightarrow>
   \<not> os_access_X_OK w (import_tflite_path w (exe_suffix (system w)))"
  by (auto simp: resolve_executable_def Let_def split: if_splits)

lemma resolve_executable_Inr:
  "snd (resolve_executable w) = Inr s \<Longrightarrow>
   os_access_X_OK w (import_tflite_path w (exe_suffix (system w))) \<and> s = exe_suffix (system w)"
  by (auto simp: resolve_executable_def Let_def split: if_splits)

lemma not_FileNotFoundError:
  "open_exception k p \<noteq> FileNotFoundError q"
  "json_exception j \<noteq> FileNotFoundError q"
  by (cases k, simp_all) (cases j, simp_all)

lemma load_version_info_not_found:
  "snd (load_version_info w) = Inl (FileNotFoundError p) \<Longrightarrow>
   files w (VERSION_INFO_FILE w) = None"
  by (auto simp: load_version_info_def not_FileNotFoundError split: option.splits if_splits)

lemma load_version_info_other_error:
  "snd (load_version_info w) = Inl e \<Longrightarrow> (\<And>p. e \<noteq> FileNotFoundError p) \<Longrightarrow>
   snd (load_version w) = Inl e"
  by (cases w rule: load_version_info_cases) auto

lemma stages_prefix:
  "prefix (stages w) [Resolve, Load_version, Compute_identity, Emit] \<and> stages w \<noteq> []"
proof (cases w rule: setup_py_runs)
  case tool_missing
  then show ?thesis by (simp add: stages_def)
next
  case (load_fails l e)
  then show ?thesis by (auto simp: stages_def)
next
  case (identity_fails v)
  then show ?thesis by (simp add: stages_def)
next
  case (emits l d args)
  then show ?thesis by (auto simp: stages_def)
qed

lemma stages_short:
  "stages w \<noteq> [Resolve, Load_version, Compute_identity, Emit] \<Longrightarrow>
   (\<exists>e. snd (setup_py w) = Inl e) \<and> setup_calls w = []"
proof (cases w rule: setup_py_runs)
  case tool_missing
  then show ?thesis by (simp add: setup_calls_def)
next
  case (load_fails l e)
  then show ?thesis by (auto simp: setup_calls_def)
next
  case (identity_fails v)
  then show ?thesis by (simp add: setup_calls_def)
next
  case (emits l d args)
  moreover assume "stages w \<noteq> [Resolve, Load_version, Compute_identity, Emit]"
  ultimately show ?thesis by (auto simp: stages_def)
qed

lemma resolve_failure_ends_run:
  assumes "snd (resolve_executable w) = Inl e"
  shows "stages w = [Resolve] \<and> snd (setup_py w) = Inl e"
proof -
  note no = resolve_executable_Inl [OF assms]
  note run = setup_py_tool_missing [OF no]
  from assms have "e = RuntimeError (''Tool not found ('' @ import_tflite_path w (exe_suffix (system w))
        @ ''). Be sure to build //iree_tf_compiler:iree-import-tflite and run ./symlink_binaries.sh'')"
    by (simp add: resolve_executable_fails [OF no])
  then show ?thesis
    by (simp add: run stages_of_run [OF run])
qed

lemma load_failure_ends_run:
  assumes "snd (resolve_executable w) = Inr s"
      and "snd (load_version w) = Inl e"
  shows "stages w = [Resolve, Load_version] \<and> snd (setup_py w) = Inl e"
proof -
  from resolve_executable_Inr [OF assms(1)]
  have tool: "os_access_X_OK w (import_tflite_path w (exe_suffix (system w)))" ..
  show ?thesis
  proof (cases w rule: setup_py_runs)
    case tool_missing
    with tool show ?thesis by simp
  next
    case (load_fails l e')
    with assms(2) show ?thesis by (auto simp: stages_def)
  next
    case (identity_fails v)
    with assms(2) show ?thesis by simp
  next
    case (emits l d args)
    with assms(2) show ?thesis by simp
  qed
qed

lemma not_found_continues:
  assumes "snd (resolve_executable w) = Inr s"
      and "snd (load_version_info w) = Inl (FileNotFoundError p)"
  shows "snd (load_version w) = Inr (PDict Map.empty)
         \<and> stages w = [Resolve, Load_version, Compute_identity, Emit]"
proof -
  from resolve_executable_Inr [OF assms(1)]
  have tool: "os_access_X_OK w (import_tflite_path w (exe_suffix (system w)))" ..
  note lv = load_version_absent [OF load_version_info_not_found [OF assms(2)]]
  note run = setup_py_emits [OF tool lv refl]
  show ?thesis
    by (simp add: lv stages_of_run [OF run])
qed

lemma identity_failure_ends_run:
  assumes "snd (resolve_executable w) = Inr s"
      and "snd (load_version w) = Inr v"
      and "snd (package_identity v) = Inl e"
  shows "stages w = [Resolve, Load_version, Compute_identity] \<and> snd (setup_py w) = Inl e"
proof -
  from resolve_executable_Inr [OF assms(1)]
  have tool: "os_access_X_OK w (import_tflite_path w (exe_suffix (system w)))" ..
  show ?thesis
  proof (cases w rule: setup_py_runs)
    case tool_missing
    with tool show ?thesis by simp
  next
    case (load_fails l e')
    with assms(2) show ?thesis by simp
  next
    case (identity_fails v')
    with assms(2,3) show ?thesis
      by (simp add: stages_def package_identity_not_dict)
  next
    case (emits l d args)
    with assms(2) have v: "v = PDict d" by simp
    from assms(3) show ?thesis
      unfolding v by (simp add: package_identity_dict)
  qed
qed

lemma emit_is_last:
  assumes "snd (resolve_executable w) = Inr s"
      and "snd (load_version w) = Inr v"
      and "snd (package_identity v) = Inr i"
  shows "stages w = [Resolve, Load_version, Compute_identity, Emit]
         \<and> snd (setup_py w) = snd (emit w s i)
         \<and> last (fst (setup_py w)) = last (fst (emit w s i))"
proof -
  from resolve_executable_Inr [OF assms(1)]
  have tool: "os_access_X_OK w (import_tflite_path w (exe_suffix (system w)))"
    and s: "s = exe_suffix (system w)" by simp_all
  show ?thesis
  proof (cases w rule: setup_py_runs)
    case tool_missing
    with tool show ?thesis by simp
  next
    case (load_fails l e')
    with assms(2) show ?thesis by simp
  next
    case (identity_fails v')
    with assms(2,3) show ?thesis
      by (simp add: package_identity_not_dict)
  next
    case (emits l d args)
    with assms(2) have v: "v = PDict d" by simp
    from assms(3) have i: "i = (py_or (case d ''package-suffix'' of None \<Rightarrow> PNone | Some x \<Rightarrow> x) (PStr ''''),
           py_or (case d ''package-version'' of None \<Rightarrow> PNone | Some x \<Rightarrow> x) (PStr ''0.1dev1''))"
      unfolding v
      by (simp add: package_identity_dict)
    from emits(3,5) show ?thesis
      unfolding i s emits(4) by (auto simp: stages_def emit_eq)
  qed
qed

lemma platform_read_once:
  "length (filter (\<lambda>e. e = Platform_system) (fst (setup_py w))) = 1
   \<and> take 2 (fst (setup_py w)) =
       [Platform_system, Os_access (import_tflite_path w (exe_suffix (system w)))]"
proof (cases w rule: setup_py_runs)
  case tool_missing
  then show ?thesis by simp
next
  case (load_fails l e)
  then show ?thesis by auto
next
  case (identity_fails v)
  then show ?thesis by simp
next
  case (emits l d args)
  then show ?thesis by auto
qed

lemma setup_calls_cases:
  "setup_calls w = [] \<or>
   (\<exists>a b. setup_calls w =
      [setup_kwargs w (exe_suffix (system w))
         (if wheel_importable w then Some bdist_wheel else None) a b])"
proof (cases w rule: setup_py_runs)
  case tool_missing
  then show ?thesis by (simp add: setup_calls_def)
next
  case (load_fails l e)
  then show ?thesis by (auto simp: setup_calls_def)
next
  case (identity_fails v)
  then show ?thesis by (simp add: setup_calls_def)
next
  case (emits l d args)
  then show ?thesis by (auto simp: setup_calls_def)
qed

lemma posix_join_tool:
  "d \<noteq> [] \<Longrightarrow> last d \<noteq> CHR ''/'' \<Longrightarrow>
   posix_join d [''iree'', ''tools'', ''tflite'', ''iree-import-tflite'' @ sfx]
     = d @ ''/iree/tools/tflite/iree-import-tflite'' @ sfx"
  by (simp add: posix_join_def)

subsection \<open>The concrete worlds\<close>

lemma tool_path_linux:
  "import_tflite_path (example_world ''Linux'' t v) (exe_suffix ''Linux'')
     = ''/src/pkg/iree/tools/tflite/iree-import-tflite''"
  by (simp add: import_tflite_path_def exe_suffix_def example_world_def posix_join_def)

lemma tool_path_windows:
  "import_tflite_path (example_world ''Windows'' t v) (exe_suffix ''Windows'')
     = ''/src/pkg/iree/tools/tflite/iree-import-tflite.exe''"
  by (simp add: import_tflite_path_def exe_suffix_def example_world_def posix_join_def)

lemma version_path_example:
  "VERSION_INFO_FILE (example_world s t v) = ''/src/pkg/../../../../version_info.json''"
  by (simp add: VERSION_INFO_FILE_def IREESRC_DIR_def THIS_DIR_def example_world_def posix_join_def)

lemma example_world_sel:
  "system (example_world s t v) = s"
  "files (example_world s t v) ''/src/pkg/iree/tools/tflite/iree-import-tflite'' = t"
  "files (example_world s t v) ''/src/pkg/iree/tools/tflite/iree-import-tflite.exe'' = t"
  "files (example_world s t v) ''/src/pkg/../../../../version_info.json'' = v"
  by (simp_all add: example_world_def)

lemma nightly_world:
  "json_loads (example_world s t v) nightly_text =
     Some (PDict [''package-suffix'' \<mapsto> PStr ''-nightly'', ''package-version'' \<mapsto> PStr ''1.2.3''])"
  by (simp add: example_world_def example_json_loads_def)

lemma falsy_world:
  "json_loads (example_world s t v) falsy_text =
     Some (PDict [''package-suffix'' \<mapsto> PNone, ''package-version'' \<mapsto> PStr ''''])"
  by (simp add: example_world_def example_json_loads_def nightly_text_def falsy_text_def)



lemma example_resolve_missing:
  "snd (resolve_executable (example_world ''Linux'' None v)) =
     Inl (RuntimeError (''Tool not found (/src/pkg/iree/tools/tflite/iree-import-tflite). ''
       @ ''Be sure to build //iree_tf_compiler:iree-import-tflite and run ./symlink_binaries.sh''))"
  using tool_path_linux [of None v]
  by (simp add: resolve_executable_def Let_def os_access_X_OK_def example_world_sel)

lemma example_resolve_found:
  "snd (resolve_executable (example_world ''Linux'' (Some (a_file True '''')) v)) = Inr ''''"
  using tool_path_linux [of "Some (a_file True '''')" v]
  by (simp add: resolve_executable_def Let_def os_access_X_OK_def example_world_sel
        a_file_def exe_suffix_def)

lemma example_load_version_info:
  "snd (load_version_info (example_world s t None)) =
     Inl (FileNotFoundError ''/src/pkg/../../../../version_info.json'')"
  "snd (load_version_info (example_world s t (Some (a_file False ''{oops'')))) =
     Inl JSONDecodeError"
  "snd (load_version (example_world s t (Some (a_file False ''[]'')))) = Inr (PList [])"
  by (simp_all add: load_version_def load_version_info_def version_path_example
        example_world_sel a_file_def example_json_loads_def nightly_text_def falsy_text_def
        mistyped_text_def example_json_failure_def
        example_world_def [THEN arg_cong [of _ _ json_loads]]
        example_world_def [THEN arg_cong [of _ _ json_failure]])




subsection \<open>The claims\<close>

text \<open>
  Claim C1. When the file at the resolved path (the script's directory, then
  \<^verbatim>\<open>iree/tools/tflite\<close>, then the base name with the platform's suffix) is missing or
  is not executable, the run ends with the \<open>RuntimeError\<close> of line 26 (the
  specification's \<^verbatim>\<open>MissingArtifact\<close>), whose message holds the resolved path and the
  instruction to build the tool and run \<^verbatim>\<open>./symlink_binaries.sh\<close>. The run did nothing but read the platform and test the file:
  the version record was not opened, no keyword argument was computed and \<^verbatim>\<open>setup\<close> was
  never called.
\<close>

theorem missing_artifact_is_fatal:
  assumes "files w (import_tflite_path w (exe_suffix (system w))) = None
           \<or> (\<exists>f. files w (import_tflite_path w (exe_suffix (system w))) = Some f \<and> \<not> x_ok f)"
  shows "setup_py w =
           ([Platform_system, Os_access (import_tflite_path w (exe_suffix (system w)))],
            Inl (RuntimeError
                  (''Tool not found ('' @ import_tflite_path w (exe_suffix (system w))
                   @ ''). Be sure to build //iree_tf_compiler:iree-import-tflite ''
                   @ ''and run ./symlink_binaries.sh'')))
         \<and> setup_calls w = []
         \<and> stages w = [Resolve]"
proof -
  from assms have no: "\<not> os_access_X_OK w (import_tflite_path w (exe_suffix (system w)))"
    by (auto simp: os_access_X_OK_def)
  have run: "setup_py w =
     ([Platform_system, Os_access (import_tflite_path w (exe_suffix (system w)))],
      Inl (RuntimeError (''Tool not found ('' @ import_tflite_path w (exe_suffix (system w))
        @ ''). Be sure to build //iree_tf_compiler:iree-import-tflite and run ./symlink_binaries.sh'')))"
    by (rule setup_py_tool_missing [OF no])
  show ?thesis
    by (simp add: run setup_calls_def stages_def)
qed

theorem missing_artifact_is_fatal_witness:
  "setup_py (example_world ''Linux'' None None) =
     ([Platform_system, Os_access ''/src/pkg/iree/tools/tflite/iree-import-tflite''],
      Inl (RuntimeError (''Tool not found (/src/pkg/iree/tools/tflite/iree-import-tflite). ''
         @ ''Be sure to build //iree_tf_compiler:iree-import-tflite and run ./symlink_binaries.sh'')))
   \<and> setup_calls (example_world ''Linux'' None None) = []
   \<and> setup_py (example_world ''Linux'' (Some (a_file False [])) None) =
     ([Platform_system, Os_access ''/src/pkg/iree/tools/tflite/iree-import-tflite''],
      Inl (RuntimeError (''Tool not found (/src/pkg/iree/tools/tflite/iree-import-tflite). ''
         @ ''Be sure to build //iree_tf_compiler:iree-import-tflite and run ./symlink_binaries.sh'')))
   \<and> setup_calls (example_world ''Linux'' (Some (a_file False [])) None) = []"
  using missing_artifact_is_fatal [of "example_world ''Linux'' None None"]
        missing_artifact_is_fatal [of "example_world ''Linux'' (Some (a_file False [])) None"]
  by (simp add: example_world_sel tool_path_linux a_file_def)

text \<open>
  Claim C3. Let the tool be in place and the version record's file hold a JSON object
  whose \<^verbatim>\<open>package-suffix\<close> and \<^verbatim>\<open>package-version\<close> fields are strings or missing
  (\<open>sfx\<close> and \<open>ver\<close> are the strings, \<open>None\<close> for a missing field). Then \<^verbatim>\<open>setup\<close> is
  called once; its \<^verbatim>\<open>name\<close> is the base name followed by the suffix, nothing for a missing
  one, and its \<^verbatim>\<open>version\<close> is the version field, or \<^verbatim>\<open>0.1dev1\<close> when that is missing or
  empty. With \<^verbatim>\<open>-nightly\<close> and \<^verbatim>\<open>1.2.3\<close> the pair is \<^verbatim>\<open>iree-tools-tflite-nightly\<close>,
  \<^verbatim>\<open>1.2.3\<close>.
\<close>

theorem package_identity_from_version_info:
  assumes "os_access_X_OK w (import_tflite_path w (exe_suffix (system w)))"
      and "files w (VERSION_INFO_FILE w) = Some f"
      and "r_ok f"
      and "json_loads w (text_of f) = Some (PDict d)"
      and "d ''package-suffix'' = map_option PStr sfx"
      and "d ''package-version'' = map_option PStr ver"
  shows "map name (setup_calls w) =
           [''iree-tools-tflite'' @ (case sfx of None \<Rightarrow> '''' | Some s \<Rightarrow> s)]
         \<and> map version (setup_calls w) =
           [case ver of None \<Rightarrow> ''0.1dev1'' | Some v \<Rightarrow> if v = '''' then ''0.1dev1'' else v]
         \<and> (sfx = Some ''-nightly'' \<and> ver = Some ''1.2.3'' \<longrightarrow>
              map (\<lambda>a. (name a, version a)) (setup_calls w)
                = [(''iree-tools-tflite-nightly'', ''1.2.3'')])"
proof -
  note calls = setup_py_loaded_dict [OF assms(1,2,3,4)]
  have n: "map name (setup_calls w) =
           [''iree-tools-tflite'' @ (case sfx of None \<Rightarrow> '''' | Some s \<Rightarrow> s)]"
    by (cases sfx)
       (simp_all add: calls assms(5) name_setup_kwargs py_or_def format_value_def)
  have v: "map version (setup_calls w) =
           [case ver of None \<Rightarrow> ''0.1dev1'' | Some v \<Rightarrow> if v = '''' then ''0.1dev1'' else v]"
    by (cases ver)
       (simp_all add: calls assms(6) version_setup_kwargs py_or_def format_value_def)
  have "map (\<lambda>a. (name a, version a)) (setup_calls w)
          = [(''iree-tools-tflite-nightly'', ''1.2.3'')]"
    if "sfx = Some ''-nightly'' \<and> ver = Some ''1.2.3''"
    using that n v by (simp add: calls)
  with n v show ?thesis by blast
qed

theorem package_identity_from_version_info_witness:
  "map (\<lambda>a. (name a, version a))
     (setup_calls (example_world ''Linux'' (Some (a_file True '''')) (Some (a_file False nightly_text))))
   = [(''iree-tools-tflite-nightly'', ''1.2.3'')]"
  using package_identity_from_version_info
          [of "example_world ''Linux'' (Some (a_file True '''')) (Some (a_file False nightly_text))"
              "a_file False nightly_text"
              "[''package-suffix'' \<mapsto> PStr ''-nightly'', ''package-version'' \<mapsto> PStr ''1.2.3'']"
              "Some ''-nightly''" "Some ''1.2.3''"]
  by (simp add: example_world_sel tool_path_linux version_path_example a_file_def
        os_access_X_OK_def nightly_world)







text \<open>
  Claim C6. When the tool is in place and there is no file at the version record's path,
  loading prints the warning and yields the empty dict instead of raising; the run goes
  through all four stages, calls \<^verbatim>\<open>setup\<close> once, with the bare base name and the
  placeholder version, and ends as that call ends.
\<close>

theorem absent_version_file_uses_defaults:
  assumes "os_access_X_OK w (import_tflite_path w (exe_suffix (system w)))"
      and "files w (VERSION_INFO_FILE w) = None"
  shows "load_version w =
           ([Os_realpath (this_dir w), Open_rt (VERSION_INFO_FILE w),
             Print ''version_info.json not found. Using defaults''],
            Inr (PDict Map.empty))
         \<and> Print ''version_info.json not found. Using defaults'' \<in> set (fst (setup_py w))
         \<and> stages w = [Resolve, Load_version, Compute_identity, Emit]
         \<and> map name (setup_calls w) = [''iree-tools-tflite'']
         \<and> map version (setup_calls w) = [''0.1dev1'']
         \<and> snd (setup_py w) =
             (case run_setup w (hd (setup_calls w)) of
                Some e \<Rightarrow> Inl e
              | None \<Rightarrow> Inr (hd (setup_calls w)))"
proof -
  note lv = load_version_absent [OF assms(2)]
  note run = setup_py_emits [OF assms(1) lv refl]
  have calls: "setup_calls w =
      [setup_kwargs w (exe_suffix (system w))
         (if wheel_importable w then Some bdist_wheel else None) (PStr '''') (PStr ''0.1dev1'')]"
    by (simp add: setup_calls_of_run [OF run] py_or_def)
  have "Print ''version_info.json not found. Using defaults'' \<in> set (fst (setup_py w))"
    by (simp add: run)
  moreover have "stages w = [Resolve, Load_version, Compute_identity, Emit]"
    by (simp add: stages_of_run [OF run])
  moreover have "map name (setup_calls w) = [''iree-tools-tflite'']"
    by (simp add: calls name_setup_kwargs format_value_def)
  moreover have "map version (setup_calls w) = [''0.1dev1'']"
    by (simp add: calls version_setup_kwargs format_value_def)
  moreover have "snd (setup_py w) =
             (case run_setup w (hd (setup_calls w)) of
                Some e \<Rightarrow> Inl e
              | None \<Rightarrow> Inr (hd (setup_calls w)))"
    unfolding calls by (simp add: run py_or_def split: option.split)
  ultimately show ?thesis
    using lv by blast
qed

theorem absent_version_file_uses_defaults_witness:
  "map name (setup_calls (example_world ''Linux'' (Some (a_file True '''')) None))
     = [''iree-tools-tflite'']
   \<and> map version (setup_calls (example_world ''Linux'' (Some (a_file True '''')) None))
     = [''0.1dev1'']
   \<and> stages (example_world ''Linux'' (Some (a_file True '''')) None)
     = [Resolve, Load_version, Compute_identity, Emit]"
  using absent_version_file_uses_defaults
          [of "example_world ''Linux'' (Some (a_file True '''')) None"]
  by (simp add: example_world_sel tool_path_linux version_path_example a_file_def
        os_access_X_OK_def)

text \<open>
  Claim C7. The stages a run goes through are an initial part of resolve, load version,
  compute identity, emit, in this order and each once. A run that does not reach the last
  stage ended with an exception and never called \<^verbatim>\<open>setup\<close>. An exception in the first
  stage, in loading (any but \<^verbatim>\<open>FileNotFoundError\<close> from \<^verbatim>\<open>load_version_info\<close>) or in
  computing the identity ends the run in that stage with that exception. When
  \<^verbatim>\<open>load_version_info\<close> raises \<^verbatim>\<open>FileNotFoundError\<close>, loading returns the empty dict and
  the run goes on through all four stages. The run ends as the last stage ends, with the
  call of \<^verbatim>\<open>setup\<close> as the last thing done.
\<close>

theorem stages_are_linear:
  "prefix (stages w) [Resolve, Load_version, Compute_identity, Emit]
   \<and> stages w \<noteq> []
   \<and> (stages w \<noteq> [Resolve, Load_version, Compute_identity, Emit] \<longrightarrow>
        (\<exists>e. snd (setup_py w) = Inl e) \<and> setup_calls w = [])
   \<and> (\<forall>e. snd (resolve_executable w) = Inl e \<longrightarrow>
        stages w = [Resolve] \<and> snd (setup_py w) = Inl e)
   \<and> (\<forall>s e. snd (resolve_executable w) = Inr s \<and> snd (load_version_info w) = Inl e
          \<and> (\<forall>p. e \<noteq> FileNotFoundError p) \<longrightarrow>
        stages w = [Resolve, Load_version] \<and> snd (setup_py w) = Inl e)
   \<and> (\<forall>s p. snd (resolve_executable w) = Inr s
          \<and> snd (load_version_info w) = Inl (FileNotFoundError p) \<longrightarrow>
        snd (load_version w) = Inr (PDict Map.empty)
        \<and> stages w = [Resolve, Load_version, Compute_identity, Emit])
   \<and> (\<forall>s v e. snd (resolve_executable w) = Inr s \<and> snd (load_version w) = Inr v
          \<and> snd (package_identity v) = Inl e \<longrightarrow>
        stages w = [Resolve, Load_version, Compute_identity] \<and> snd (setup_py w) = Inl e)
   \<and> (\<forall>s v i. snd (resolve_executable w) = Inr s \<and> snd (load_version w) = Inr v
          \<and> snd (package_identity v) = Inr i \<longrightarrow>
        stages w = [Resolve, Load_version, Compute_identity, Emit]
        \<and> snd (setup_py w) = snd (emit w s i)
        \<and> last (fst (setup_py w)) = last (fst (emit w s i)))"
proof (intro conjI allI impI)
  show "prefix (stages w) [Resolve, Load_version, Compute_identity, Emit]"
    and "stages w \<noteq> []"
    using stages_prefix [of w] by simp_all
next
  assume "stages w \<noteq> [Resolve, Load_version, Compute_identity, Emit]"
  from stages_short [OF this]
  show "\<exists>e. snd (setup_py w) = Inl e" and "setup_calls w = []" by simp_all
next
  fix e
  assume "snd (resolve_executable w) = Inl e"
  from resolve_failure_ends_run [OF this]
  show "stages w = [Resolve]" and "snd (setup_py w) = Inl e" by simp_all
next
  fix s e
  assume a: "snd (resolve_executable w) = Inr s \<and> snd (load_version_info w) = Inl e
              \<and> (\<forall>p. e \<noteq> FileNotFoundError p)"
  then have "snd (load_version w) = Inl e"
    by (simp add: load_version_info_other_error)
  with a load_failure_ends_run [of w s e]
  show "stages w = [Resolve, Load_version]" and "snd (setup_py w) = Inl e" by simp_all
next
  fix s p
  assume "snd (resolve_executable w) = Inr s
            \<and> snd (load_version_info w) = Inl (FileNotFoundError p)"
  with not_found_continues [of w s p]
  show "snd (load_version w) = Inr (PDict Map.empty)"
    and "stages w = [Resolve, Load_version, Compute_identity, Emit]" by simp_all
next
  fix s v e
  assume "snd (resolve_executable w) = Inr s \<and> snd (load_version w) = Inr v
            \<and> snd (package_identity v) = Inl e"
  with identity_failure_ends_run [of w s v e]
  show "stages w = [Resolve, Load_version, Compute_identity]"
    and "snd (setup_py w) = Inl e" by simp_all
next
  fix s v i
  assume "snd (resolve_executable w) = Inr s \<and> snd (load_version w) = Inr v
            \<and> snd (package_identity v) = Inr i"
  with emit_is_last [of w s v i]
  show "stages w = [Resolve, Load_version, Compute_identity, Emit]"
    and "snd (setup_py w) = snd (emit w s i)"
    and "last (fst (setup_py w)) = last (fst (emit w s i))" by simp_all
qed

theorem stages_are_linear_witness:
  "stages (example_world ''Linux'' None None) = [Resolve]
   \<and> stages (example_world ''Linux'' (Some (a_file True '''')) (Some (a_file False ''{oops'')))
       = [Resolve, Load_version]
   \<and> snd (setup_py (example_world ''Linux'' (Some (a_file True ''''))
            (Some (a_file False ''{oops'')))) = Inl JSONDecodeError
   \<and> stages (example_world ''Linux'' (Some (a_file True '''')) (Some (a_file False ''[]'')))
       = [Resolve, Load_version, Compute_identity]
   \<and> stages (example_world ''Linux'' (Some (a_file True '''')) None)
       = [Resolve, Load_version, Compute_identity, Emit]"
proof -
  have "stages (example_world ''Linux'' None None) = [Resolve]"
    using stages_are_linear [of "example_world ''Linux'' None None"]
          example_resolve_missing [of None]
    by simp
  moreover
  have "stages (example_world ''Linux'' (Some (a_file True '''')) (Some (a_file False ''{oops'')))
          = [Resolve, Load_version]
        \<and> snd (setup_py (example_world ''Linux'' (Some (a_file True ''''))
            (Some (a_file False ''{oops'')))) = Inl JSONDecodeError"
    using stages_are_linear
            [of "example_world ''Linux'' (Some (a_file True '''')) (Some (a_file False ''{oops''))"]
          example_resolve_found [of "Some (a_file False ''{oops'')"]
          example_load_version_info(2) [of "''Linux''" "Some (a_file True '''')"]
    by simp
  moreover
  have "stages (example_world ''Linux'' (Some (a_file True '''')) (Some (a_file False ''[]'')))
          = [Resolve, Load_version, Compute_identity]"
    using stages_are_linear
            [of "example_world ''Linux'' (Some (a_file True '''')) (Some (a_file False ''[]''))"]
          example_resolve_found [of "Some (a_file False ''[]'')"]
          example_load_version_info(3) [of "''Linux''" "Some (a_file True '''')"]
          package_identity_not_dict [of "PList []"]
    by simp
  moreover
  have "stages (example_world ''Linux'' (Some (a_file True '''')) None)
          = [Resolve, Load_version, Compute_identity, Emit]"
    using stages_are_linear [of "example_world ''Linux'' (Some (a_file True '''')) None"]
          example_resolve_found [of None]
          example_load_version_info(1) [of "''Linux''" "Some (a_file True '''')"]
    by simp
  ultimately show ?thesis by blast
qed

text \<open>
  Claim C8. The suffix is \<^verbatim>\<open>.exe\<close> exactly when \<^verbatim>\<open>platform.system()\<close> is \<^verbatim>\<open>Windows\<close>
  and empty otherwise. Every run starts by reading the platform and testing the path
  joined from the script's directory, \<^verbatim>\<open>iree\<close>, \<^verbatim>\<open>tools\<close>, \<^verbatim>\<open>tflite\<close> and the base
  name \<^verbatim>\<open>iree-import-tflite\<close> followed by the suffix; with \<^verbatim>\<open>posixpath.join\<close> and a script
  directory that does not end in a slash that path is the directory followed by
  \<^verbatim>\<open>/iree/tools/tflite/iree-import-tflite\<close> and the suffix. The platform is read once in
  the whole run, and a call of \<^verbatim>\<open>setup\<close> lists the same file name as package data.
\<close>

theorem executable_path_by_platform:
  "(exe_suffix (system w) = ''.exe'') = (system w = ''Windows'')
   \<and> (exe_suffix (system w) = '''') = (system w \<noteq> ''Windows'')
   \<and> take 2 (fst (setup_py w)) =
       [Platform_system,
        Os_access (path_join w (this_dir w)
          [''iree'', ''tools'', ''tflite'', ''iree-import-tflite'' @ exe_suffix (system w)])]
   \<and> (path_join w = posix_join \<and> this_dir w \<noteq> [] \<and> last (this_dir w) \<noteq> CHR ''/'' \<longrightarrow>
        import_tflite_path w (exe_suffix (system w))
          = this_dir w @ ''/iree/tools/tflite/iree-import-tflite'' @ exe_suffix (system w))
   \<and> length (filter (\<lambda>e. e = Platform_system) (fst (setup_py w))) = 1
   \<and> (\<forall>a \<in> set (setup_calls w).
        package_data a =
          [(''iree.tools.tflite'', [''iree-import-tflite'' @ exe_suffix (system w)])])"
proof (intro conjI impI ballI)
  show "(exe_suffix (system w) = ''.exe'') = (system w = ''Windows'')"
    and "(exe_suffix (system w) = '''') = (system w \<noteq> ''Windows'')"
    by (simp_all add: exe_suffix_def)
  show "take 2 (fst (setup_py w)) =
       [Platform_system,
        Os_access (path_join w (this_dir w)
          [''iree'', ''tools'', ''tflite'', ''iree-import-tflite'' @ exe_suffix (system w)])]"
    using platform_read_once [of w] by (simp add: import_tflite_path_def)
  show "length (filter (\<lambda>e. e = Platform_system) (fst (setup_py w))) = 1"
    using platform_read_once [of w] by simp
next
  assume "path_join w = posix_join \<and> this_dir w \<noteq> [] \<and> last (this_dir w) \<noteq> CHR ''/''"
  then show "import_tflite_path w (exe_suffix (system w))
          = this_dir w @ ''/iree/tools/tflite/iree-import-tflite'' @ exe_suffix (system w)"
    using posix_join_tool [of "this_dir w" "exe_suffix (system w)"]
    by (simp add: import_tflite_path_def)
next
  fix a
  assume "a \<in> set (setup_calls w)"
  with setup_calls_cases [of w]
  show "package_data a =
          [(''iree.tools.tflite'', [''iree-import-tflite'' @ exe_suffix (system w)])]"
    by (auto simp: setup_kwargs_def)
qed

theorem executable_path_by_platform_witness:
  "take 2 (fst (setup_py (example_world ''Windows'' None None))) =
     [Platform_system, Os_access ''/src/pkg/iree/tools/tflite/iree-import-tflite.exe'']
   \<and> take 2 (fst (setup_py (example_world ''Linux'' (Some (a_file True '''')) None))) =
     [Platform_system, Os_access ''/src/pkg/iree/tools/tflite/iree-import-tflite'']
   \<and> take 2 (fst (setup_py (example_world ''Darwin'' None None))) =
     [Platform_system, Os_access ''/src/pkg/iree/tools/tflite/iree-import-tflite'']
   \<and> map package_data (setup_calls (example_world ''Linux'' (Some (a_file True '''')) None)) =
     [[(''iree.tools.tflite'', [''iree-import-tflite''])]]"
proof -
  have calls: "length (setup_calls (example_world ''Linux'' (Some (a_file True '''')) None)) = 1"
  proof -
    have tool: "os_access_X_OK (example_world ''Linux'' (Some (a_file True '''')) None)
        (import_tflite_path (example_world ''Linux'' (Some (a_file True '''')) None)
          (exe_suffix (system (example_world ''Linux'' (Some (a_file True '''')) None))))"
      by (simp add: example_world_sel tool_path_linux os_access_X_OK_def a_file_def)
    have lv: "load_version (example_world ''Linux'' (Some (a_file True '''')) None) =
        ([Os_realpath (this_dir (example_world ''Linux'' (Some (a_file True '''')) None)),
          Open_rt (VERSION_INFO_FILE (example_world ''Linux'' (Some (a_file True '''')) None)),
          Print ''version_info.json not found. Using defaults''], Inr (PDict Map.empty))"
      by (rule load_version_absent) (simp add: version_path_example example_world_sel)
    show ?thesis
      by (simp add: setup_calls_of_run [OF setup_py_emits [OF tool lv refl]])
  qed
  then obtain a where a: "setup_calls (example_world ''Linux'' (Some (a_file True '''')) None) = [a]"
    by (cases "setup_calls (example_world ''Linux'' (Some (a_file True '''')) None)") auto
  have sfx: "exe_suffix ''Windows'' = ''.exe''" "exe_suffix ''Linux'' = ''''"
      "exe_suffix ''Darwin'' = ''''"
    by (simp_all add: exe_suffix_def)
  have paths: "path_join (example_world s t v) = posix_join"
      "this_dir (example_world s t v) = ''/src/pkg''" for s t v
    by (simp_all add: example_world_def)
  show ?thesis
    using executable_path_by_platform [of "example_world ''Windows'' None None"]
          executable_path_by_platform [of "example_world ''Linux'' (Some (a_file True '''')) None"]
          executable_path_by_platform [of "example_world ''Darwin'' None None"]
    by (simp add: a sfx paths example_world_sel posix_join_def)
qed

text \<open>
  Claim C9. When the base class's \<^verbatim>\<open>get_tag\<close> returns a tag, the override returns
  \<^verbatim>\<open>py3\<close> and \<^verbatim>\<open>none\<close> in place of its python and abi tags and the platform tag as it
  came; when the base class's method raises, so does the override.
\<close>

theorem get_tag_keeps_platform:
  "(base_get_tag self = Inr (python, abi, plat) \<longrightarrow>
      bdist_wheel_get_tag base_get_tag self = Inr (''py3'', ''none'', plat))
   \<and> (base_get_tag self = Inl e \<longrightarrow> bdist_wheel_get_tag base_get_tag self = Inl e)"
  by (simp add: bdist_wheel_get_tag_def)

theorem get_tag_keeps_platform_witness:
  "bdist_wheel_get_tag (\<lambda>c. Inr (''cp311'', ''cp311'', ''linux_x86_64''))
     \<lparr> root_is_pure = False \<rparr>
   = Inr (''py3'', ''none'', ''linux_x86_64'')
   \<and> bdist_wheel_get_tag (\<lambda>c. Inl (SetupError ''unsupported'')) \<lparr> root_is_pure = False \<rparr>
   = Inl (SetupError ''unsupported'')"
  using get_tag_keeps_platform
          [of "\<lambda>c. Inr (''cp311'', ''cp311'', ''linux_x86_64'')" "\<lparr> root_is_pure = False \<rparr>"
              "''cp311''" "''cp311''" "''linux_x86_64''"]
        get_tag_keeps_platform
          [of "\<lambda>c. Inl (SetupError ''unsupported'')" "\<lparr> root_is_pure = False \<rparr>"
              _ _ _ "SetupError ''unsupported''"]
  by simp

text \<open>
  Claim C10. The fallback of each field is by truth value. With the tool in place and a
  JSON object in the version record's file, a \<^verbatim>\<open>package-suffix\<close> that is present but
  falsy gives the bare base name, and a \<^verbatim>\<open>package-version\<close> that is present but falsy
  gives \<^verbatim>\<open>0.1dev1\<close>; \<^verbatim>\<open>null\<close> and the empty string are falsy. A field that is present
  and truthy is used as it is.
\<close>

theorem identity_fallback_is_by_truthiness:
  assumes "os_access_X_OK w (import_tflite_path w (exe_suffix (system w)))"
      and "files w (VERSION_INFO_FILE w) = Some f"
      and "r_ok f"
      and "json_loads w (text_of f) = Some (PDict d)"
  shows "(\<forall>v. d ''package-suffix'' = Some v \<and> \<not> truthy v \<longrightarrow>
            map name (setup_calls w) = [''iree-tools-tflite''])
         \<and> (\<forall>v. d ''package-version'' = Some v \<and> \<not> truthy v \<longrightarrow>
            map version (setup_calls w) = [''0.1dev1''])
         \<and> (d ''package-suffix'' = Some PNone \<or> d ''package-suffix'' = Some (PStr '''') \<longrightarrow>
            map name (setup_calls w) = [''iree-tools-tflite''])
         \<and> (d ''package-version'' = Some PNone \<or> d ''package-version'' = Some (PStr '''') \<longrightarrow>
            map version (setup_calls w) = [''0.1dev1''])
         \<and> (\<forall>v. d ''package-suffix'' = Some v \<and> truthy v \<longrightarrow>
            map name (setup_calls w) = [''iree-tools-tflite'' @ format_value w v])
         \<and> (\<forall>v. d ''package-version'' = Some v \<and> truthy v \<longrightarrow>
            map version (setup_calls w) = [format_value w v])"
proof -
  note calls = setup_py_loaded_dict [OF assms]
  have tn: "map name (setup_calls w) = [''iree-tools-tflite'' @ format_value w v]"
    if "d ''package-suffix'' = Some v" "truthy v" for v
    using that by (simp add: calls name_setup_kwargs py_or_def)
  have tv: "map version (setup_calls w) = [format_value w v]"
    if "d ''package-version'' = Some v" "truthy v" for v
    using that by (simp add: calls version_setup_kwargs py_or_def)
  have n: "map name (setup_calls w) = [''iree-tools-tflite'']"
    if "d ''package-suffix'' = Some v" "\<not> truthy v" for v
    using that by (simp add: calls name_setup_kwargs py_or_def format_value_def)
  have v: "map version (setup_calls w) = [''0.1dev1'']"
    if "d ''package-version'' = Some v" "\<not> truthy v" for v
    using that by (simp add: calls version_setup_kwargs py_or_def format_value_def)
  have "map name (setup_calls w) = [''iree-tools-tflite'']"
    if "d ''package-suffix'' = Some PNone \<or> d ''package-suffix'' = Some (PStr '''')"
    using that n [of PNone] n [of "PStr ''''"] by auto
  moreover have "map version (setup_calls w) = [''0.1dev1'']"
    if "d ''package-version'' = Some PNone \<or> d ''package-version'' = Some (PStr '''')"
    using that v [of PNone] v [of "PStr ''''"] by auto
  ultimately show ?thesis
    using n v tn tv by blast
qed

theorem identity_fallback_is_by_truthiness_witness:
  "map name
     (setup_calls (example_world ''Linux'' (Some (a_file True '''')) (Some (a_file False falsy_text))))
   = [''iree-tools-tflite'']
   \<and> map version
     (setup_calls (example_world ''Linux'' (Some (a_file True '''')) (Some (a_file False falsy_text))))
   = [''0.1dev1'']"
  using identity_fallback_is_by_truthiness
          [of "example_world ''Linux'' (Some (a_file True '''')) (Some (a_file False falsy_text))"
              "a_file False falsy_text"
              "[''package-suffix'' \<mapsto> PNone, ''package-version'' \<mapsto> PStr '''']"]
  by (simp add: example_world_sel tool_path_linux version_path_example a_file_def
        os_access_X_OK_def falsy_world)

end
